theory Spec2Isabelle
  imports Main "HOL-Library.Word"
begin

unbundle bit_operations_syntax

section \<open>The ESP-IDF port of the ubxlib I2C API (u\_port\_i2c.c)\<close>

subsection \<open>Compile-time configuration\<close>

text \<open>
  \<^verbatim>\<open>int32_t\<close>, \<^verbatim>\<open>size_t\<close> and \<^verbatim>\<open>unsigned long\<close> are all 32 bits wide on
  the ESP32 family; values of the three types are 32-bit words, read with \<open>sint\<close> where the
  C type is signed.
\<close>

type_synonym int32_t = "32 word"
type_synonym size_t = "32 word"

text \<open>
  The file is compiled either for the original ESP32 (\<^verbatim>\<open>CONFIG_IDF_TARGET_ESP32\<close>
  defined) or for the ESP32X3 and its relatives (not defined).
\<close>

datatype idf_target = ESP32 | ESP32X3

text \<open>
  The macros whose values are fixed outside this file: the target, the clock source
  \<^verbatim>\<open>U_PORT_I2C_ESP32X3_CLOCK_SOURCE\<close> (0 unless the build overrides it) and the two
  defaults of u\_port\_i2c.h. The functions below receive them as fields of one record.
\<close>

record build =
  CONFIG_IDF_TARGET :: idf_target
  U_PORT_I2C_ESP32X3_CLOCK_SOURCE :: "32 word"
  U_PORT_I2C_CLOCK_FREQUENCY_HERTZ :: int32_t
  U_PORT_I2C_TIMEOUT_MILLISECONDS :: int32_t

text \<open>\<^verbatim>\<open>I2C_SCLK_SRC_FLAG_LIGHT_SLEEP\<close> is \<^verbatim>\<open>(1 << 1)\<close> in ESP-IDF's driver/i2c.h.\<close>

definition I2C_SCLK_SRC_FLAG_LIGHT_SLEEP :: "32 word" where
  "I2C_SCLK_SRC_FLAG_LIGHT_SLEEP = push_bit 1 1"

definition U_PORT_I2C_MAX_NUM :: nat where
  "U_PORT_I2C_MAX_NUM = 2"

definition U_PORT_I2C_CLOCK_PERIOD_NS :: "build \<Rightarrow> 32 word" where
  "U_PORT_I2C_CLOCK_PERIOD_NS b =
     (if U_PORT_I2C_ESP32X3_CLOCK_SOURCE b = I2C_SCLK_SRC_FLAG_LIGHT_SLEEP then 57 else 25)"

definition U_PORT_I2C_ESP32X3_TIMEOUT_REGISTER_MAX :: nat where
  "U_PORT_I2C_ESP32X3_TIMEOUT_REGISTER_MAX = 22"

subsection \<open>Timeout conversion\<close>

text \<open>
  The \<^verbatim>\<open>for\<close> loop of \<^verbatim>\<open>timeoutMsToEsp32\<close>: \<open>x\<close> is the loop counter (it
  stays below 23, so a natural number stands for the \<^verbatim>\<open>size_t\<close>), \<open>timeoutEsp32\<close>
  the result so far. \<^verbatim>\<open>(1UL << x) * U_PORT_I2C_CLOCK_PERIOD_NS / 1000000\<close> is
  computed in 32-bit unsigned arithmetic and compared, as an \<^verbatim>\<open>int32_t\<close>, with
  the signed \<open>timeoutMs\<close>.
\<close>

function timeoutMsToEsp32_loop :: "build \<Rightarrow> int32_t \<Rightarrow> nat \<Rightarrow> int32_t \<Rightarrow> int32_t" where
  "timeoutMsToEsp32_loop b timeoutMs x timeoutEsp32 =
     (if x < U_PORT_I2C_ESP32X3_TIMEOUT_REGISTER_MAX \<and> timeoutEsp32 <s 0
      then (let y = (push_bit x (1 :: 32 word) * U_PORT_I2C_CLOCK_PERIOD_NS b) div 1000000
            in timeoutMsToEsp32_loop b timeoutMs (x + 1)
                 (if timeoutMs \<le>s y then word_of_nat x else timeoutEsp32))
      else timeoutEsp32)"
  by pat_completeness auto
termination
  by (relation "measure (\<lambda>(b, timeoutMs, x, timeoutEsp32).
        U_PORT_I2C_ESP32X3_TIMEOUT_REGISTER_MAX - x)") auto

declare timeoutMsToEsp32_loop.simps [simp del]

text \<open>
  \<^verbatim>\<open>timeoutMsToEsp32\<close>. On the ESP32 the product \<^verbatim>\<open>timeoutMs * 80000\<close> is
  taken in 32 bits.
\<close>

definition timeoutMsToEsp32 :: "build \<Rightarrow> int32_t \<Rightarrow> int32_t" where
  "timeoutMsToEsp32 b timeoutMs =
     (case CONFIG_IDF_TARGET b of
        ESP32 \<Rightarrow> timeoutMs * 80000
      | ESP32X3 \<Rightarrow> timeoutMsToEsp32_loop b timeoutMs 0 (- 1))"

text \<open>
  \<^verbatim>\<open>timeoutEsp32ToMs\<close>. C leaves \<^verbatim>\<open>1UL << timeoutEsp32\<close> undefined when the
  count is negative or at least 32: the model returns \<open>None\<close> there. The division of the
  ESP32 branch is C's signed division, which truncates towards zero.
\<close>

definition timeoutEsp32ToMs :: "build \<Rightarrow> int32_t \<Rightarrow> int32_t option" where
  "timeoutEsp32ToMs b timeoutEsp32 =
     (case CONFIG_IDF_TARGET b of
        ESP32 \<Rightarrow> Some (word_of_int (sgn (sint timeoutEsp32) * (\<bar>sint timeoutEsp32\<bar> div 80000)))
      | ESP32X3 \<Rightarrow>
          (if 0 \<le>s timeoutEsp32 \<and> timeoutEsp32 <s 32
           then Some ((push_bit (unat timeoutEsp32) (1 :: 32 word) * U_PORT_I2C_CLOCK_PERIOD_NS b)
                        div 1000000)
           else None))"

subsection \<open>Error codes, the driver and the state\<close>

text \<open>
  The enumerators of u\_error\_common.h that the file uses. An \<^verbatim>\<open>int32_t\<close> result
  that holds either one of them or a value (a handle, a length, a clock, a timeout) is a
  sum: \<open>Inl\<close> the enumerator, \<open>Inr\<close> the value.
\<close>

datatype uErrorCommon =
    U_ERROR_COMMON_SUCCESS
  | U_ERROR_COMMON_NOT_INITIALISED
  | U_ERROR_COMMON_NOT_SUPPORTED
  | U_ERROR_COMMON_INVALID_PARAMETER
  | U_ERROR_COMMON_NO_MEMORY
  | U_ERROR_COMMON_PLATFORM

text \<open>Pointers are 32-bit addresses, \<^verbatim>\<open>NULL\<close> is address 0.\<close>

type_synonym ptr = "32 word"

definition NULL :: ptr where
  "NULL = 0"

datatype esp_err_t = ESP_OK | ESP_FAIL

datatype i2c_mode_t = I2C_MODE_SLAVE | I2C_MODE_MASTER

datatype i2c_ack_type_t = I2C_MASTER_ACK | I2C_MASTER_NACK | I2C_MASTER_LAST_NACK

record i2c_config_t =
  mode :: i2c_mode_t
  sda_io_num :: int32_t
  scl_io_num :: int32_t
  sda_pullup_en :: bool
  scl_pullup_en :: bool
  clk_speed :: "32 word"
  clk_flags :: "32 word"

text \<open>
  The calls into the ESP-IDF I2C driver, with their arguments. The driver is outside the
  file: every call the code makes is appended to a log, and what the call returns is read
  from an oracle that sees the log so far.
\<close>

datatype driver_call =
    i2c_cmd_link_create
  | i2c_master_start ptr
  | i2c_master_write_byte ptr "8 word" bool
  | i2c_master_write ptr ptr size_t bool
  | i2c_master_read ptr ptr size_t i2c_ack_type_t
  | i2c_master_read_byte ptr ptr i2c_ack_type_t
  | i2c_master_stop ptr
  | i2c_master_cmd_begin int32_t ptr "32 word"
  | i2c_cmd_link_delete ptr
  | i2c_param_config int32_t i2c_config_t
  | i2c_set_timeout int32_t int32_t
  | i2c_get_timeout int32_t
  | i2c_driver_install int32_t i2c_mode_t
  | i2c_driver_delete int32_t

record driver =
  esp_ret :: "driver_call list \<Rightarrow> driver_call \<Rightarrow> esp_err_t"
  cmd_link :: "driver_call list \<Rightarrow> ptr"
  timeout_reg :: "driver_call list \<Rightarrow> int32_t"

record uPortI2cData_t =
  pinSda :: int32_t
  pinSdc :: int32_t
  clockHertz :: int32_t
  adopted :: bool

text \<open>
  The file's variables, and the log of driver calls. \<open>gI2cData\<close> is the array of
  \<open>U_PORT_I2C_MAX_NUM\<close> entries, read and written below only at an index that the
  source has checked.
\<close>

record state =
  gMutex :: ptr
  gI2cData :: "int32_t \<Rightarrow> uPortI2cData_t"
  gResourceAllocCount :: int32_t
  calls :: "driver_call list"

text \<open>Static storage starts zeroed.\<close>

definition startup :: state where
  "startup = \<lparr> gMutex = NULL,
     gI2cData = (\<lambda>_. \<lparr> pinSda = 0, pinSdc = 0, clockHertz = 0, adopted = False \<rparr>),
     gResourceAllocCount = 0, calls = [] \<rparr>"

text \<open>One driver call: its result comes from the oracle, the call goes to the log.\<close>

definition esp :: "driver \<Rightarrow> driver_call \<Rightarrow> state \<Rightarrow> esp_err_t \<times> state" where
  "esp d c s = (esp_ret d (calls s) c, s\<lparr>calls := calls s @ [c]\<rparr>)"

definition is_ok :: "driver \<Rightarrow> driver_call \<Rightarrow> state \<Rightarrow> bool \<times> state" where
  "is_ok d c s = (case esp d c s of (r, s') \<Rightarrow> (r = ESP_OK, s'))"

definition not_ok :: "driver \<Rightarrow> driver_call \<Rightarrow> state \<Rightarrow> bool \<times> state" where
  "not_ok d c s = (case esp d c s of (r, s') \<Rightarrow> (r \<noteq> ESP_OK, s'))"

text \<open>C's \<^verbatim>\<open>&&\<close> and \<^verbatim>\<open>||\<close>: the right operand runs only when the left one
  has not decided the result.\<close>

definition c_pure :: "bool \<Rightarrow> state \<Rightarrow> bool \<times> state" where
  "c_pure v s = (v, s)"

definition c_and :: "(state \<Rightarrow> bool \<times> state) \<Rightarrow> (state \<Rightarrow> bool \<times> state) \<Rightarrow> state \<Rightarrow> bool \<times> state" where
  "c_and f g s = (case f s of (v, s') \<Rightarrow> if v then g s' else (False, s'))"

definition c_or :: "(state \<Rightarrow> bool \<times> state) \<Rightarrow> (state \<Rightarrow> bool \<times> state) \<Rightarrow> state \<Rightarrow> bool \<times> state" where
  "c_or f g s = (case f s of (v, s') \<Rightarrow> if v then (True, s') else g s')"

text \<open>\<^verbatim>\<open>handle >= 0 && handle < sizeof(gI2cData) / sizeof(gI2cData[0])\<close>, the second
  comparison unsigned.\<close>

definition in_range :: "int32_t \<Rightarrow> bool" where
  "in_range handle \<longleftrightarrow> 0 \<le>s handle \<and> unat handle < U_PORT_I2C_MAX_NUM"

subsection \<open>Address bytes\<close>

text \<open>\<^verbatim>\<open>I2C_MASTER_WRITE\<close> and \<^verbatim>\<open>I2C_MASTER_READ\<close> are 0 and 1 in ESP-IDF. The
  macros work on the promoted \<^verbatim>\<open>uint16_t\<close> address; \<^verbatim>\<open>i2c_master_write_byte\<close>
  takes the low eight bits.\<close>

definition I2C_MASTER_WRITE :: "32 word" where
  "I2C_MASTER_WRITE = 0"

definition I2C_MASTER_READ :: "32 word" where
  "I2C_MASTER_READ = 1"

definition U_PORT_7BIT_ADDRESS_READ :: "16 word \<Rightarrow> 8 word" where
  "U_PORT_7BIT_ADDRESS_READ a = ucast (push_bit 1 (ucast a :: 32 word) OR I2C_MASTER_READ)"

definition U_PORT_7BIT_ADDRESS_WRITE :: "16 word \<Rightarrow> 8 word" where
  "U_PORT_7BIT_ADDRESS_WRITE a = ucast (push_bit 1 (ucast a :: 32 word) OR I2C_MASTER_WRITE)"

definition U_PORT_10BIT_HEADER_READ :: "16 word \<Rightarrow> 8 word" where
  "U_PORT_10BIT_HEADER_READ a =
     ucast (drop_bit 7 ((ucast a :: 32 word) AND 0x0300) OR 0xF0 OR I2C_MASTER_READ)"

definition U_PORT_10BIT_HEADER_WRITE :: "16 word \<Rightarrow> 8 word" where
  "U_PORT_10BIT_HEADER_WRITE a =
     ucast (drop_bit 7 ((ucast a :: 32 word) AND 0x0300) OR 0xF0 OR I2C_MASTER_WRITE)"

definition U_PORT_10BIT_ADDRESS :: "16 word \<Rightarrow> 8 word" where
  "U_PORT_10BIT_ADDRESS a = ucast ((ucast a :: 32 word) AND 0xFF)"

subsection \<open>Static functions\<close>

text \<open>\<^verbatim>\<open>closeI2c\<close>.\<close>

definition closeI2c :: "driver \<Rightarrow> int32_t \<Rightarrow> state \<Rightarrow> state" where
  "closeI2c d index s =
     (if 0 <s clockHertz (gI2cData s index)
      then (let s1 = (if \<not> adopted (gI2cData s index)
                      then snd (esp d (i2c_driver_delete index) s) else s)
            in s1\<lparr>gI2cData := (gI2cData s1)(index := (gI2cData s1 index)\<lparr>clockHertz := - 1\<rparr>),
                  gResourceAllocCount := gResourceAllocCount s1 - 1\<rparr>)
      else s)"

text \<open>\<^verbatim>\<open>i2c_cmd_link_create\<close> returns the handle of a new command link.\<close>

definition cmd_link_create :: "driver \<Rightarrow> state \<Rightarrow> ptr \<times> state" where
  "cmd_link_create d s = (cmd_link d (calls s), s\<lparr>calls := calls s @ [i2c_cmd_link_create]\<rparr>)"

text \<open>\<^verbatim>\<open>send\<close>: the error code and the state after it.\<close>

definition send :: "driver \<Rightarrow> int32_t \<Rightarrow> 16 word \<Rightarrow> ptr \<Rightarrow> size_t \<Rightarrow> bool \<Rightarrow> state
    \<Rightarrow> uErrorCommon \<times> state" where
  "send d handle address pData size' noStop s =
     (case cmd_link_create d s of (cmd, s1) \<Rightarrow>
      case is_ok d (i2c_master_start cmd) s1 of (started, s2) \<Rightarrow>
      if started
      then (case (if 127 < address
                  then c_or (not_ok d (i2c_master_write_byte cmd (U_PORT_10BIT_HEADER_WRITE address) True))
                            (not_ok d (i2c_master_write_byte cmd (U_PORT_10BIT_ADDRESS address) True)) s2
                  else not_ok d (i2c_master_write_byte cmd (U_PORT_7BIT_ADDRESS_WRITE address) True) s2)
            of (failed, s3) \<Rightarrow>
            case (if \<not> failed
                  then (case c_and (c_or (c_pure (pData = NULL))
                                         (is_ok d (i2c_master_write cmd pData size' True)))
                             (c_and (c_or (c_pure noStop) (is_ok d (i2c_master_stop cmd)))
                                    (is_ok d (i2c_master_cmd_begin handle cmd 0))) s3
                        of (done, s4) \<Rightarrow>
                          (if done then U_ERROR_COMMON_SUCCESS else U_ERROR_COMMON_PLATFORM, s4))
                  else (U_ERROR_COMMON_PLATFORM, s3))
            of (errorCode, s5) \<Rightarrow> (errorCode, snd (esp d (i2c_cmd_link_delete cmd) s5)))
      else (U_ERROR_COMMON_PLATFORM, s2))"

text \<open>
  \<^verbatim>\<open>receive\<close>. \<^verbatim>\<open>errorCodeOrLength\<close> is \<^verbatim>\<open>U_ERROR_COMMON_SUCCESS\<close> once the
  start has been queued, and the last \<^verbatim>\<open>if\<close> overwrites it with \<^verbatim>\<open>(int32_t) size\<close>
  only when stop and execution both return \<^verbatim>\<open>ESP_OK\<close>.
\<close>

definition receive :: "driver \<Rightarrow> int32_t \<Rightarrow> 16 word \<Rightarrow> ptr \<Rightarrow> size_t \<Rightarrow> state
    \<Rightarrow> (uErrorCommon + int32_t) \<times> state" where
  "receive d handle address pData size' s =
     (case cmd_link_create d s of (cmd, s1) \<Rightarrow>
      case is_ok d (i2c_master_start cmd) s1 of (started, s2) \<Rightarrow>
      if started
      then (case (if 127 < address
                  then c_or (not_ok d (i2c_master_write_byte cmd (U_PORT_10BIT_HEADER_WRITE address) True))
                      (c_or (not_ok d (i2c_master_write_byte cmd (U_PORT_10BIT_ADDRESS address) True))
                      (c_or (not_ok d (i2c_master_start cmd))
                            (not_ok d (i2c_master_write_byte cmd (U_PORT_10BIT_HEADER_READ address) True)))) s2
                  else not_ok d (i2c_master_write_byte cmd (U_PORT_7BIT_ADDRESS_READ address) True) s2)
            of (failed, s3) \<Rightarrow>
            case (if \<not> failed
                  then (case (if 1 < size'
                              then c_or (not_ok d (i2c_master_read cmd pData (size' - 1) I2C_MASTER_ACK))
                                        (not_ok d (i2c_master_read_byte cmd (pData + size' - 1) I2C_MASTER_LAST_NACK)) s3
                              else if 0 < size'
                              then not_ok d (i2c_master_read_byte cmd (pData + size' - 1) I2C_MASTER_LAST_NACK) s3
                              else (False, s3))
                        of (readFailed, s4) \<Rightarrow>
                        case c_and (c_pure (\<not> readFailed))
                               (c_and (is_ok d (i2c_master_stop cmd))
                                      (is_ok d (i2c_master_cmd_begin handle cmd 0))) s4
                        of (done, s5) \<Rightarrow>
                          (if done then Inr size'
                           else if readFailed then Inl U_ERROR_COMMON_PLATFORM
                           else Inl U_ERROR_COMMON_SUCCESS, s5))
                  else (Inl U_ERROR_COMMON_PLATFORM, s3))
            of (errorCodeOrLength, s6) \<Rightarrow>
              (errorCodeOrLength, snd (esp d (i2c_cmd_link_delete cmd) s6)))
      else (Inl U_ERROR_COMMON_PLATFORM, s2))"

text \<open>
  \<^verbatim>\<open>openI2c\<close>. The mutex is taken and given back around the body; with one thread
  of control that leaves no trace in the state.
\<close>

definition openI2c :: "driver \<Rightarrow> build \<Rightarrow> int32_t \<Rightarrow> int32_t \<Rightarrow> int32_t \<Rightarrow> bool \<Rightarrow> bool \<Rightarrow> state
    \<Rightarrow> (uErrorCommon + int32_t) \<times> state" where
  "openI2c d b i2c pinSda' pinSdc' controller adopt s =
     (if gMutex s \<noteq> NULL
      then (if in_range i2c \<and> clockHertz (gI2cData s i2c) <s 0 \<and> controller \<and>
               (adopt \<or> (0 \<le>s pinSda' \<and> 0 \<le>s pinSdc'))
            then (let cfg = \<lparr> mode = I2C_MODE_MASTER, sda_io_num = pinSda', scl_io_num = pinSdc',
                              sda_pullup_en = True, scl_pullup_en = True,
                              clk_speed = U_PORT_I2C_CLOCK_FREQUENCY_HERTZ b,
                              clk_flags = U_PORT_I2C_ESP32X3_CLOCK_SOURCE b \<rparr>
                  in case c_or (c_pure adopt)
                       (c_and (is_ok d (i2c_param_config i2c cfg))
                       (c_and (is_ok d (i2c_set_timeout i2c
                                 (timeoutMsToEsp32 b (U_PORT_I2C_TIMEOUT_MILLISECONDS b))))
                              (is_ok d (i2c_driver_install i2c I2C_MODE_MASTER)))) s
                     of (ok, s1) \<Rightarrow>
                       if ok
                       then (Inr i2c,
                             s1\<lparr>gI2cData := (gI2cData s1)(i2c :=
                                   \<lparr> pinSda = pinSda', pinSdc = pinSdc',
                                     clockHertz = clk_speed cfg, adopted = adopt \<rparr>),
                                gResourceAllocCount := gResourceAllocCount s1 + 1\<rparr>)
                       else (Inl U_ERROR_COMMON_PLATFORM, s1))
            else (Inl U_ERROR_COMMON_INVALID_PARAMETER, s))
      else (Inl U_ERROR_COMMON_NOT_INITIALISED, s))"

subsection \<open>Public functions\<close>

text \<open>The indices of \<open>gI2cData\<close>, in the order the loops of \<^verbatim>\<open>uPortI2cInit\<close> and
  \<^verbatim>\<open>uPortI2cDeinit\<close> visit them.\<close>

definition indices :: "int32_t list" where
  "indices = map word_of_nat [0 ..< U_PORT_I2C_MAX_NUM]"

text \<open>
  \<^verbatim>\<open>uPortI2cInit\<close>. \<open>mutexCreate\<close> is what \<^verbatim>\<open>uPortMutexCreate(&gMutex)\<close> does:
  the code it returns and the handle it leaves in \<open>gMutex\<close>.
\<close>

definition uPortI2cInit :: "uErrorCommon \<times> ptr \<Rightarrow> state \<Rightarrow> uErrorCommon \<times> state" where
  "uPortI2cInit mutexCreate s =
     (if gMutex s = NULL
      then (case mutexCreate of (errorCode, h) \<Rightarrow>
              (let s1 = s\<lparr>gMutex := h\<rparr>
               in if errorCode = U_ERROR_COMMON_SUCCESS
                  then (errorCode,
                        fold (\<lambda>x s'. s'\<lparr>gI2cData := (gI2cData s')(x :=
                                (gI2cData s' x)\<lparr>pinSda := - 1, pinSdc := - 1, clockHertz := - 1\<rparr>)\<rparr>)
                             indices s1)
                  else (errorCode, s1)))
      else (U_ERROR_COMMON_SUCCESS, s))"

definition uPortI2cDeinit :: "driver \<Rightarrow> state \<Rightarrow> state" where
  "uPortI2cDeinit d s =
     (if gMutex s \<noteq> NULL
      then (fold (closeI2c d) indices s)\<lparr>gMutex := NULL\<rparr>
      else s)"

definition uPortI2cOpen :: "driver \<Rightarrow> build \<Rightarrow> int32_t \<Rightarrow> int32_t \<Rightarrow> int32_t \<Rightarrow> bool \<Rightarrow> state
    \<Rightarrow> (uErrorCommon + int32_t) \<times> state" where
  "uPortI2cOpen d b i2c pinSda' pinSdc' controller s =
     openI2c d b i2c pinSda' pinSdc' controller False s"

definition uPortI2cAdopt :: "driver \<Rightarrow> build \<Rightarrow> int32_t \<Rightarrow> bool \<Rightarrow> state
    \<Rightarrow> (uErrorCommon + int32_t) \<times> state" where
  "uPortI2cAdopt d b i2c controller s = openI2c d b i2c (- 1) (- 1) controller True s"

definition uPortI2cClose :: "driver \<Rightarrow> int32_t \<Rightarrow> state \<Rightarrow> state" where
  "uPortI2cClose d handle s =
     (if gMutex s \<noteq> NULL \<and> in_range handle then closeI2c d handle s else s)"

definition uPortI2cCloseRecoverBus :: "driver \<Rightarrow> int32_t \<Rightarrow> state \<Rightarrow> uErrorCommon \<times> state" where
  "uPortI2cCloseRecoverBus d handle s =
     (if gMutex s \<noteq> NULL
      then (if in_range handle \<and> 0 <s clockHertz (gI2cData s handle)
            then (if \<not> adopted (gI2cData s handle)
                  then (U_ERROR_COMMON_NOT_SUPPORTED, closeI2c d handle s)
                  else (U_ERROR_COMMON_NOT_SUPPORTED, s))
            else (U_ERROR_COMMON_INVALID_PARAMETER, s))
      else (U_ERROR_COMMON_NOT_INITIALISED, s))"

text \<open>\<^verbatim>\<open>i2c_get_timeout(handle, &timeoutEsp32)\<close>: the result and the value stored.\<close>

definition get_timeout :: "driver \<Rightarrow> int32_t \<Rightarrow> state \<Rightarrow> (esp_err_t \<times> int32_t) \<times> state" where
  "get_timeout d handle s =
     (case esp d (i2c_get_timeout handle) s of (x, s') \<Rightarrow> ((x, timeout_reg d (calls s)), s'))"

definition uPortI2cSetClock :: "driver \<Rightarrow> build \<Rightarrow> int32_t \<Rightarrow> int32_t \<Rightarrow> state
    \<Rightarrow> uErrorCommon \<times> state" where
  "uPortI2cSetClock d b handle clockHertz' s =
     (if gMutex s \<noteq> NULL
      then (if in_range handle \<and> 0 <s clockHertz (gI2cData s handle) \<and> 0 <s clockHertz'
            then (if \<not> adopted (gI2cData s handle)
                  then (case get_timeout d handle s of ((x, timeoutEsp32), s1) \<Rightarrow>
                    if x = ESP_OK
                    then (let cfg = \<lparr> mode = I2C_MODE_MASTER,
                                      sda_io_num = pinSda (gI2cData s1 handle),
                                      scl_io_num = pinSdc (gI2cData s1 handle),
                                      sda_pullup_en = True, scl_pullup_en = True,
                                      clk_speed = clockHertz',
                                      clk_flags = U_PORT_I2C_ESP32X3_CLOCK_SOURCE b \<rparr>
                          in case is_ok d (i2c_driver_delete handle) s1 of (deleted, s2) \<Rightarrow>
                            if deleted
                            then (let s3 = s2\<lparr>gI2cData := (gI2cData s2)(handle :=
                                             (gI2cData s2 handle)\<lparr>clockHertz := - 1\<rparr>)\<rparr>
                                  in case c_and (is_ok d (i2c_param_config handle cfg))
                                         (c_and (is_ok d (i2c_set_timeout handle timeoutEsp32))
                                                (is_ok d (i2c_driver_install handle I2C_MODE_MASTER))) s3
                                     of (ok, s4) \<Rightarrow>
                                       if ok
                                       then (U_ERROR_COMMON_SUCCESS,
                                             s4\<lparr>gI2cData := (gI2cData s4)(handle :=
                                                  (gI2cData s4 handle)\<lparr>pinSda := sda_io_num cfg,
                                                                        clockHertz := clockHertz'\<rparr>)\<rparr>)
                                       else (U_ERROR_COMMON_PLATFORM, s4))
                            else (U_ERROR_COMMON_PLATFORM, s2))
                    else (U_ERROR_COMMON_PLATFORM, s1))
                  else (U_ERROR_COMMON_NOT_SUPPORTED, s))
            else (U_ERROR_COMMON_INVALID_PARAMETER, s))
      else (U_ERROR_COMMON_NOT_INITIALISED, s))"

definition uPortI2cGetClock :: "int32_t \<Rightarrow> state \<Rightarrow> uErrorCommon + int32_t" where
  "uPortI2cGetClock handle s =
     (if gMutex s \<noteq> NULL
      then (if in_range handle \<and> 0 <s clockHertz (gI2cData s handle)
            then (if \<not> adopted (gI2cData s handle)
                  then Inr (clockHertz (gI2cData s handle))
                  else Inl U_ERROR_COMMON_NOT_SUPPORTED)
            else Inl U_ERROR_COMMON_INVALID_PARAMETER)
      else Inl U_ERROR_COMMON_NOT_INITIALISED)"

definition uPortI2cSetTimeout :: "driver \<Rightarrow> build \<Rightarrow> int32_t \<Rightarrow> int32_t \<Rightarrow> state
    \<Rightarrow> uErrorCommon \<times> state" where
  "uPortI2cSetTimeout d b handle timeoutMs s =
     (if gMutex s \<noteq> NULL
      then (if in_range handle \<and> 0 <s clockHertz (gI2cData s handle) \<and> 0 <s timeoutMs
            then (if \<not> adopted (gI2cData s handle)
                  then (case is_ok d (i2c_set_timeout handle (timeoutMsToEsp32 b timeoutMs)) s
                        of (ok, s1) \<Rightarrow>
                          (if ok then U_ERROR_COMMON_SUCCESS else U_ERROR_COMMON_PLATFORM, s1))
                  else (U_ERROR_COMMON_INVALID_PARAMETER, s))
            else (U_ERROR_COMMON_INVALID_PARAMETER, s))
      else (U_ERROR_COMMON_NOT_INITIALISED, s))"

text \<open>
  \<^verbatim>\<open>uPortI2cGetTimeout\<close>. The result is \<open>None\<close> where \<^verbatim>\<open>timeoutEsp32ToMs\<close> has
  no defined value.
\<close>

definition uPortI2cGetTimeout :: "driver \<Rightarrow> build \<Rightarrow> int32_t \<Rightarrow> state
    \<Rightarrow> (uErrorCommon + int32_t) option \<times> state" where
  "uPortI2cGetTimeout d b handle s =
     (if gMutex s \<noteq> NULL
      then (if in_range handle \<and> 0 <s clockHertz (gI2cData s handle)
            then (case get_timeout d handle s of ((x, timeoutEsp32), s1) \<Rightarrow>
                    if x = ESP_OK
                    then (map_option Inr (timeoutEsp32ToMs b timeoutEsp32), s1)
                    else (Some (Inl U_ERROR_COMMON_PLATFORM), s1))
            else (Some (Inl U_ERROR_COMMON_INVALID_PARAMETER), s))
      else (Some (Inl U_ERROR_COMMON_NOT_INITIALISED), s))"

text \<open>
  \<^verbatim>\<open>uPortI2cControllerSendReceive\<close>. The receive half runs when
  \<^verbatim>\<open>errorCodeOrLength\<close> is still \<^verbatim>\<open>U_ERROR_COMMON_SUCCESS\<close> after the send half.
\<close>

definition uPortI2cControllerSendReceive :: "driver \<Rightarrow> int32_t \<Rightarrow> 16 word \<Rightarrow> ptr \<Rightarrow> size_t
    \<Rightarrow> ptr \<Rightarrow> size_t \<Rightarrow> state \<Rightarrow> (uErrorCommon + int32_t) \<times> state" where
  "uPortI2cControllerSendReceive d handle address pSend bytesToSend pReceive bytesToReceive s =
     (if gMutex s \<noteq> NULL
      then (if in_range handle \<and> 0 <s clockHertz (gI2cData s handle) \<and>
               (pSend \<noteq> NULL \<or> bytesToSend = 0) \<and> (pReceive \<noteq> NULL \<or> bytesToReceive = 0)
            then (case (if pSend \<noteq> NULL then send d handle address pSend bytesToSend False s
                        else (U_ERROR_COMMON_SUCCESS, s))
                  of (errorCode, s1) \<Rightarrow>
                    if errorCode = U_ERROR_COMMON_SUCCESS \<and> pReceive \<noteq> NULL
                    then receive d handle address pReceive bytesToReceive s1
                    else (Inl errorCode, s1))
            else (Inl U_ERROR_COMMON_INVALID_PARAMETER, s))
      else (Inl U_ERROR_COMMON_NOT_INITIALISED, s))"

definition uPortI2cControllerSend :: "driver \<Rightarrow> int32_t \<Rightarrow> 16 word \<Rightarrow> ptr \<Rightarrow> size_t \<Rightarrow> bool
    \<Rightarrow> state \<Rightarrow> uErrorCommon \<times> state" where
  "uPortI2cControllerSend d handle address pSend bytesToSend noStop s =
     (if gMutex s \<noteq> NULL
      then (if in_range handle \<and> 0 <s clockHertz (gI2cData s handle) \<and>
               (pSend \<noteq> NULL \<or> bytesToSend = 0)
            then send d handle address pSend bytesToSend noStop s
            else (U_ERROR_COMMON_INVALID_PARAMETER, s))
      else (U_ERROR_COMMON_NOT_INITIALISED, s))"

definition uPortI2cResourceAllocCount :: "state \<Rightarrow> int32_t" where
  "uPortI2cResourceAllocCount s = gResourceAllocCount s"

subsection \<open>A concrete build\<close>

text \<open>A build for the ESP32X3 with the crystal as clock source (25 ns), a 100 kHz default
  clock and a 10 ms default timeout.\<close>

definition x3_build :: build where
  "x3_build = \<lparr> CONFIG_IDF_TARGET = ESP32X3, U_PORT_I2C_ESP32X3_CLOCK_SOURCE = 0,
     U_PORT_I2C_CLOCK_FREQUENCY_HERTZ = 100000, U_PORT_I2C_TIMEOUT_MILLISECONDS = 10 \<rparr>"

text \<open>The timeout, in milliseconds, that register value \<open>x\<close> stands for on the ESP32X3:
  the expression both conversions compute.\<close>

definition register_ms :: "build \<Rightarrow> nat \<Rightarrow> int32_t" where
  "register_ms b x = (push_bit x (1 :: 32 word) * U_PORT_I2C_CLOCK_PERIOD_NS b) div 1000000"

subsection \<open>What a transfer asks of the driver\<close>

text \<open>
  A transfer queues a fixed sequence of driver calls and gives up at the first one that does
  not return \<^verbatim>\<open>ESP_OK\<close>. \<open>attempt d t cs\<close> is the part of \<open>cs\<close> that is
  called when the log is \<open>t\<close>: everything up to and including the first call that fails.
  \<open>accepted d t cs\<close> says that none fails.
\<close>

fun attempt :: "driver \<Rightarrow> driver_call list \<Rightarrow> driver_call list \<Rightarrow> driver_call list" where
  "attempt d t [] = []"
| "attempt d t (c # cs) = c # (if esp_ret d t c = ESP_OK then attempt d (t @ [c]) cs else [])"

fun accepted :: "driver \<Rightarrow> driver_call list \<Rightarrow> driver_call list \<Rightarrow> bool" where
  "accepted d t [] \<longleftrightarrow> True"
| "accepted d t (c # cs) \<longleftrightarrow> esp_ret d t c = ESP_OK \<and> accepted d (t @ [c]) cs"

text \<open>The address phase of a send and of a receive.\<close>

definition address_for_write :: "ptr \<Rightarrow> 16 word \<Rightarrow> driver_call list" where
  "address_for_write cmd address =
     (if 127 < address
      then [i2c_master_write_byte cmd (U_PORT_10BIT_HEADER_WRITE address) True,
            i2c_master_write_byte cmd (U_PORT_10BIT_ADDRESS address) True]
      else [i2c_master_write_byte cmd (U_PORT_7BIT_ADDRESS_WRITE address) True])"

definition address_for_read :: "ptr \<Rightarrow> 16 word \<Rightarrow> driver_call list" where
  "address_for_read cmd address =
     (if 127 < address
      then [i2c_master_write_byte cmd (U_PORT_10BIT_HEADER_WRITE address) True,
            i2c_master_write_byte cmd (U_PORT_10BIT_ADDRESS address) True,
            i2c_master_start cmd,
            i2c_master_write_byte cmd (U_PORT_10BIT_HEADER_READ address) True]
      else [i2c_master_write_byte cmd (U_PORT_7BIT_ADDRESS_READ address) True])"

text \<open>The read phase of a receive.\<close>

definition data_reads :: "ptr \<Rightarrow> ptr \<Rightarrow> size_t \<Rightarrow> driver_call list" where
  "data_reads cmd pData size' =
     (if 1 < size'
      then [i2c_master_read cmd pData (size' - 1) I2C_MASTER_ACK,
            i2c_master_read_byte cmd (pData + size' - 1) I2C_MASTER_LAST_NACK]
      else if 0 < size'
      then [i2c_master_read_byte cmd (pData + size' - 1) I2C_MASTER_LAST_NACK]
      else [])"

text \<open>Everything between creating the command link and deleting it.\<close>

definition send_script :: "int32_t \<Rightarrow> ptr \<Rightarrow> 16 word \<Rightarrow> ptr \<Rightarrow> size_t \<Rightarrow> bool \<Rightarrow> driver_call list" where
  "send_script handle cmd address pData size' noStop =
     i2c_master_start cmd # address_for_write cmd address @
     (if pData = NULL then [] else [i2c_master_write cmd pData size' True]) @
     (if noStop then [] else [i2c_master_stop cmd]) @
     [i2c_master_cmd_begin handle cmd 0]"

definition receive_script :: "int32_t \<Rightarrow> ptr \<Rightarrow> 16 word \<Rightarrow> ptr \<Rightarrow> size_t \<Rightarrow> driver_call list" where
  "receive_script handle cmd address pData size' =
     i2c_master_start cmd # address_for_read cmd address @ data_reads cmd pData size' @
     [i2c_master_stop cmd, i2c_master_cmd_begin handle cmd 0]"

text \<open>The calls one send or one receive adds to the log \<open>t\<close>.\<close>

definition send_calls :: "driver \<Rightarrow> int32_t \<Rightarrow> 16 word \<Rightarrow> ptr \<Rightarrow> size_t \<Rightarrow> bool \<Rightarrow> driver_call list
    \<Rightarrow> driver_call list" where
  "send_calls d handle address pData size' noStop t =
     i2c_cmd_link_create #
     attempt d (t @ [i2c_cmd_link_create]) (send_script handle (cmd_link d t) address pData size' noStop) @
     (if esp_ret d (t @ [i2c_cmd_link_create]) (i2c_master_start (cmd_link d t)) = ESP_OK
      then [i2c_cmd_link_delete (cmd_link d t)] else [])"

definition receive_calls :: "driver \<Rightarrow> int32_t \<Rightarrow> 16 word \<Rightarrow> ptr \<Rightarrow> size_t \<Rightarrow> driver_call list
    \<Rightarrow> driver_call list" where
  "receive_calls d handle address pData size' t =
     i2c_cmd_link_create #
     attempt d (t @ [i2c_cmd_link_create]) (receive_script handle (cmd_link d t) address pData size') @
     (if esp_ret d (t @ [i2c_cmd_link_create]) (i2c_master_start (cmd_link d t)) = ESP_OK
      then [i2c_cmd_link_delete (cmd_link d t)] else [])"


subsection \<open>Concrete drivers and states\<close>

text \<open>A driver that accepts every call, one whose \<^verbatim>\<open>i2c_master_start\<close> fails and one
  whose \<^verbatim>\<open>i2c_master_cmd_begin\<close> fails.\<close>

definition all_ok :: driver where
  "all_ok = \<lparr> esp_ret = (\<lambda>t c. ESP_OK), cmd_link = (\<lambda>t. 0x3FFB0000), timeout_reg = (\<lambda>t. 19) \<rparr>"

definition start_fails :: driver where
  "start_fails = \<lparr> esp_ret = (\<lambda>t c. case c of i2c_master_start _ \<Rightarrow> ESP_FAIL | _ \<Rightarrow> ESP_OK),
     cmd_link = (\<lambda>t. 0x3FFB0000), timeout_reg = (\<lambda>t. 19) \<rparr>"

definition execute_fails :: driver where
  "execute_fails = \<lparr> esp_ret = (\<lambda>t c. case c of i2c_master_cmd_begin _ _ _ \<Rightarrow> ESP_FAIL | _ \<Rightarrow> ESP_OK),
     cmd_link = (\<lambda>t. 0x3FFB0000), timeout_reg = (\<lambda>t. 19) \<rparr>"

text \<open>A driver whose \<^verbatim>\<open>i2c_driver_install\<close> fails.\<close>

definition install_fails :: driver where
  "install_fails = \<lparr> esp_ret = (\<lambda>t c. case c of i2c_driver_install _ _ \<Rightarrow> ESP_FAIL | _ \<Rightarrow> ESP_OK),
     cmd_link = (\<lambda>t. 0x3FFB0000), timeout_reg = (\<lambda>t. 19) \<rparr>"

text \<open>The state after \<^verbatim>\<open>uPortI2cInit()\<close>, then with I2C 0 opened on pins 4 and 5,
  or with I2C 1 adopted.\<close>

definition initialised :: state where
  "initialised = snd (uPortI2cInit (U_ERROR_COMMON_SUCCESS, 0x3FFC0000) startup)"

definition opened_0 :: state where
  "opened_0 = snd (uPortI2cOpen all_ok x3_build 0 4 5 True initialised)"

definition adopted_1 :: state where
  "adopted_1 = snd (uPortI2cAdopt all_ok x3_build 1 True initialised)"

subsection \<open>Entries in use, and setting the clock\<close>

text \<open>The number of entries of \<open>gI2cData\<close> that are in use.\<close>

definition open_slots :: "state \<Rightarrow> nat" where
  "open_slots s = length (filter (\<lambda>i. 0 <s clockHertz (gI2cData s i)) indices)"

text \<open>The three calls with which \<^verbatim>\<open>uPortI2cSetClock\<close> sets the instance up again
  after deleting the driver, \<open>timeoutEsp32\<close> being the timeout read before.\<close>

definition reconfigure_calls :: "build \<Rightarrow> state \<Rightarrow> int32_t \<Rightarrow> int32_t \<Rightarrow> int32_t \<Rightarrow> driver_call list" where
  "reconfigure_calls b s handle clockHertz' timeoutEsp32 =
     [i2c_param_config handle
        \<lparr> mode = I2C_MODE_MASTER, sda_io_num = pinSda (gI2cData s handle),
          scl_io_num = pinSdc (gI2cData s handle), sda_pullup_en = True, scl_pullup_en = True,
          clk_speed = clockHertz', clk_flags = U_PORT_I2C_ESP32X3_CLOCK_SOURCE b \<rparr>,
      i2c_set_timeout handle timeoutEsp32,
      i2c_driver_install handle I2C_MODE_MASTER]"

section \<open>Timeout conversion: what the search returns\<close>

lemma timeoutMsToEsp32_loop_done:
  "\<not> te <s 0 \<Longrightarrow> timeoutMsToEsp32_loop b ms x te = te"
  by (simp add: timeoutMsToEsp32_loop.simps)

lemma register_index_not_negative: "x < 22 \<Longrightarrow> \<not> (word_of_nat x :: 32 word) <s 0"
proof -
  assume a: "x < 22"
  have "sint (word_of_nat x :: 32 word) = int x"
    using a by (simp add: signed_of_nat signed_take_bit_int_eq_self)
  then show ?thesis by (simp add: word_sless_alt)
qed

text \<open>The loop returns the first register value below 22 whose timeout reaches the
  request, and -1 when none below 22 does.\<close>

lemma timeoutMsToEsp32_loop_find:
  "x \<le> 22 \<Longrightarrow> timeoutMsToEsp32_loop b ms x (- 1) =
     (case List.find (\<lambda>k. ms \<le>s register_ms b k) [x ..< 22] of
        None \<Rightarrow> - 1 | Some k \<Rightarrow> word_of_nat k)"
proof (induction "22 - x" arbitrary: x)
  case 0
  then show ?case
    by (simp add: timeoutMsToEsp32_loop.simps U_PORT_I2C_ESP32X3_TIMEOUT_REGISTER_MAX_def)
next
  case (Suc n)
  then have lt: "x < 22" by simp
  have up: "[x ..< 22] = x # [Suc x ..< 22]" using lt by (simp add: upt_conv_Cons)
  have neg: "(- 1 :: 32 word) <s 0" by (simp add: word_sless_alt)
  show ?case
  proof (cases "ms \<le>s register_ms b x")
    case True
    then show ?thesis
      using lt neg register_index_not_negative [OF lt]
      by (subst timeoutMsToEsp32_loop.simps)
         (simp add: up U_PORT_I2C_ESP32X3_TIMEOUT_REGISTER_MAX_def register_ms_def
            timeoutMsToEsp32_loop_done Let_def)
  next
    case False
    have "n = 22 - Suc x" using Suc.hyps(2) by simp
    moreover have "Suc x \<le> 22" using lt by simp
    ultimately have ih: "timeoutMsToEsp32_loop b ms (Suc x) (- 1) =
       (case List.find (\<lambda>k. ms \<le>s register_ms b k) [Suc x ..< 22] of
          None \<Rightarrow> - 1 | Some k \<Rightarrow> word_of_nat k)"
      using Suc.hyps(1) by blast
    show ?thesis
      using lt neg False ih
      by (subst timeoutMsToEsp32_loop.simps)
         (simp add: up U_PORT_I2C_ESP32X3_TIMEOUT_REGISTER_MAX_def register_ms_def Let_def)
  qed
qed

text \<open>With the 25 ns period the search is this table: requests above 52 ms get -1.\<close>

lemma timeoutMsToEsp32_x3_table:
  "timeoutMsToEsp32 x3_build ms =
     (if ms \<le>s 0 then 0 else if ms \<le>s 1 then 16 else if ms \<le>s 3 then 17
      else if ms \<le>s 6 then 18 else if ms \<le>s 13 then 19 else if ms \<le>s 26 then 20
      else if ms \<le>s 52 then 21 else - 1)"
  by (simp add: timeoutMsToEsp32_def x3_build_def timeoutMsToEsp32_loop_find register_ms_def
        U_PORT_I2C_CLOCK_PERIOD_NS_def I2C_SCLK_SRC_FLAG_LIGHT_SLEEP_def upt_conv_Cons)

text \<open>
  C1. The claim: on the ESP32X3 \<^verbatim>\<open>timeoutMsToEsp32\<close> returns the smallest register
  value in 0..22 whose timeout is at least the request, 22 included. The code stops at 21:
  for a request of 53 ms register value 22 stands for 104 ms, which is enough, and the
  function returns -1.
\<close>

theorem timeoutMsToEsp32_never_returns_22:
  "timeoutMsToEsp32 x3_build 53 = - 1 \<and> (53 :: int32_t) \<le>s register_ms x3_build 22 \<and>
   register_ms x3_build 22 = 104"
proof -
  have "timeoutMsToEsp32 x3_build 53 = - 1"
    by (simp add: timeoutMsToEsp32_x3_table word_sle_eq)
  moreover have "register_ms x3_build 22 = 104"
    by (simp add: register_ms_def x3_build_def U_PORT_I2C_CLOCK_PERIOD_NS_def
          I2C_SCLK_SRC_FLAG_LIGHT_SLEEP_def)
  ultimately show ?thesis by (simp add: word_sle_eq)
qed

section \<open>Timeout conversion: the round trip\<close>

lemma timeoutEsp32ToMs_x3_values:
  "timeoutEsp32ToMs x3_build 16 = Some 1" "timeoutEsp32ToMs x3_build 17 = Some 3"
  "timeoutEsp32ToMs x3_build 18 = Some 6" "timeoutEsp32ToMs x3_build 19 = Some 13"
  "timeoutEsp32ToMs x3_build 20 = Some 26" "timeoutEsp32ToMs x3_build 21 = Some 52"
  "timeoutEsp32ToMs x3_build 22 = Some 104" "timeoutEsp32ToMs x3_build 23 = Some 209"
  "timeoutEsp32ToMs x3_build 0 = Some 0" "timeoutEsp32ToMs x3_build (- 1) = None"
  by (simp_all add: timeoutEsp32ToMs_def x3_build_def U_PORT_I2C_CLOCK_PERIOD_NS_def
        I2C_SCLK_SRC_FLAG_LIGHT_SLEEP_def word_sle_eq word_sless_alt)

text \<open>For requests of 1 to 52 ms the register value found converts back to at least the
  request, and to less than the next register value does.\<close>

lemma timeout_round_trip_upto_52:
  assumes "1 \<le>s ms" and "ms \<le>s 52"
  shows "\<exists>v w. timeoutEsp32ToMs x3_build (timeoutMsToEsp32 x3_build ms) = Some v \<and> ms \<le>s v \<and>
           timeoutEsp32ToMs x3_build (timeoutMsToEsp32 x3_build ms + 1) = Some w \<and> v <s w"
  using assms
  by (auto simp: timeoutMsToEsp32_x3_table timeoutEsp32ToMs_x3_values word_sle_eq word_sless_alt)

text \<open>
  C3. The claim: for every request of 1 to 104 ms the register value found converts back to
  at least the request, and to less than the next register value does. At 53 ms the search
  has returned -1: the conversion back shifts by -1, which C leaves undefined, and the next
  register value, 0, stands for 0 ms. Register value 22, which the search does not reach,
  would have satisfied the claim: it stands for 104 ms and 23 for 209 ms.
\<close>

theorem timeout_round_trip_undefined_at_53:
  "timeoutEsp32ToMs x3_build (timeoutMsToEsp32 x3_build 53) = None \<and>
   timeoutEsp32ToMs x3_build (timeoutMsToEsp32 x3_build 53 + 1) = Some 0 \<and>
   timeoutEsp32ToMs x3_build 22 = Some 104 \<and> timeoutEsp32ToMs x3_build 23 = Some 209"
proof -
  have "timeoutMsToEsp32 x3_build 53 = - 1"
    by (simp add: timeoutMsToEsp32_x3_table word_sle_eq)
  then show ?thesis by (simp add: timeoutEsp32ToMs_x3_values)
qed

section \<open>The concrete states\<close>

lemmas io_defs = esp_def is_ok_def not_ok_def c_pure_def c_and_def c_or_def cmd_link_create_def


lemma in_range_iff: "in_range h \<longleftrightarrow> h = 0 \<or> h = 1"
proof
  assume "in_range h"
  then have "unat h < 2" by (simp add: in_range_def U_PORT_I2C_MAX_NUM_def)
  then have "unat h = 0 \<or> unat h = 1" by linarith
  then show "h = 0 \<or> h = 1"
  proof
    assume "unat h = 0"
    then show ?thesis by (simp add: unat_eq_0)
  next
    assume a: "unat h = 1"
    have "h = word_of_nat (unat h)" by simp
    then have "h = 1" unfolding a by simp
    then show ?thesis by simp
  qed
next
  assume "h = 0 \<or> h = 1"
  then show "in_range h" by (auto simp: in_range_def U_PORT_I2C_MAX_NUM_def word_sle_eq)
qed

lemma initialised_eq:
  "initialised = \<lparr> gMutex = 0x3FFC0000,
     gI2cData = (\<lambda>i. if i = 0 \<or> i = 1
                      then \<lparr> pinSda = - 1, pinSdc = - 1, clockHertz = - 1, adopted = False \<rparr>
                      else \<lparr> pinSda = 0, pinSdc = 0, clockHertz = 0, adopted = False \<rparr>),
     gResourceAllocCount = 0, calls = [] \<rparr>"
  by (auto simp: initialised_def uPortI2cInit_def startup_def NULL_def indices_def
        U_PORT_I2C_MAX_NUM_def upt_conv_Cons fun_eq_iff)

lemma timeoutMsToEsp32_x3_10: "timeoutMsToEsp32 x3_build 10 = 19"
  by (simp add: timeoutMsToEsp32_x3_table word_sle_eq)

lemma opened_0_eq:
  "opened_0 = \<lparr> gMutex = 0x3FFC0000,
     gI2cData = (\<lambda>i. if i = 0
                      then \<lparr> pinSda = 4, pinSdc = 5, clockHertz = 100000, adopted = False \<rparr>
                      else if i = 1
                      then \<lparr> pinSda = - 1, pinSdc = - 1, clockHertz = - 1, adopted = False \<rparr>
                      else \<lparr> pinSda = 0, pinSdc = 0, clockHertz = 0, adopted = False \<rparr>),
     gResourceAllocCount = 1,
     calls = [i2c_param_config 0 \<lparr> mode = I2C_MODE_MASTER, sda_io_num = 4, scl_io_num = 5,
                 sda_pullup_en = True, scl_pullup_en = True, clk_speed = 100000, clk_flags = 0 \<rparr>,
              i2c_set_timeout 0 19, i2c_driver_install 0 I2C_MODE_MASTER] \<rparr>"
  by (auto simp: opened_0_def uPortI2cOpen_def openI2c_def initialised_eq in_range_iff NULL_def
        io_defs all_ok_def timeoutMsToEsp32_x3_10 word_sle_eq word_sless_alt fun_eq_iff
        x3_build_def[THEN arg_cong, of U_PORT_I2C_CLOCK_FREQUENCY_HERTZ]
        x3_build_def[THEN arg_cong, of U_PORT_I2C_ESP32X3_CLOCK_SOURCE]
        x3_build_def[THEN arg_cong, of U_PORT_I2C_TIMEOUT_MILLISECONDS])

lemma adopted_1_eq:
  "adopted_1 = \<lparr> gMutex = 0x3FFC0000,
     gI2cData = (\<lambda>i. if i = 1
                      then \<lparr> pinSda = - 1, pinSdc = - 1, clockHertz = 100000, adopted = True \<rparr>
                      else if i = 0
                      then \<lparr> pinSda = - 1, pinSdc = - 1, clockHertz = - 1, adopted = False \<rparr>
                      else \<lparr> pinSda = 0, pinSdc = 0, clockHertz = 0, adopted = False \<rparr>),
     gResourceAllocCount = 1, calls = [] \<rparr>"
  by (auto simp: adopted_1_def uPortI2cAdopt_def openI2c_def initialised_eq in_range_iff NULL_def
        io_defs word_sle_eq word_sless_alt fun_eq_iff
        x3_build_def[THEN arg_cong, of U_PORT_I2C_CLOCK_FREQUENCY_HERTZ])

lemma indices_eq: "indices = [0, 1]"
  by (simp add: indices_def U_PORT_I2C_MAX_NUM_def upt_conv_Cons)

lemma opened_0_facts:
  "gMutex opened_0 \<noteq> NULL" "in_range 0" "0 <s clockHertz (gI2cData opened_0 0)"
  "\<not> adopted (gI2cData opened_0 0)" "(0 :: int32_t) <s 400000"
  by (simp_all add: opened_0_eq NULL_def in_range_iff word_sless_alt)

lemma install_fails_on_opened_0:
  "esp_ret install_fails (calls opened_0) (i2c_get_timeout 0) = ESP_OK"
  "esp_ret install_fails (calls opened_0 @ [i2c_get_timeout 0]) (i2c_driver_delete 0) = ESP_OK"
  "\<not> accepted install_fails (calls opened_0 @ [i2c_get_timeout 0, i2c_driver_delete 0])
       (reconfigure_calls x3_build opened_0 0 400000 (timeout_reg install_fails (calls opened_0)))"
  by (simp_all add: install_fails_def reconfigure_calls_def)

section \<open>The transfer engine\<close>

text \<open>What \<^verbatim>\<open>send\<close> and \<^verbatim>\<open>receive\<close> return and log, for every driver.\<close>

lemma send_eq:
  "send d handle address pData size' noStop s =
     (if accepted d (calls s @ [i2c_cmd_link_create])
           (send_script handle (cmd_link d (calls s)) address pData size' noStop)
      then U_ERROR_COMMON_SUCCESS else U_ERROR_COMMON_PLATFORM,
      s\<lparr>calls := calls s @ send_calls d handle address pData size' noStop (calls s)\<rparr>)"
proof (cases "esp_ret d (calls s @ [i2c_cmd_link_create]) (i2c_master_start (cmd_link d (calls s))) = ESP_OK")
  case False
  then show ?thesis
    by (simp add: send_def io_defs send_script_def send_calls_def)
next
  case started: True
  show ?thesis
    using started
    by (cases "127 < address"; cases "pData = NULL"; cases noStop)
       (simp_all add: send_def io_defs send_script_def address_for_write_def send_calls_def)
qed

lemma receive_eq:
  "receive d handle address pData size' s =
     (if accepted d (calls s @ [i2c_cmd_link_create])
           (receive_script handle (cmd_link d (calls s)) address pData size')
      then Inr size'
      else if accepted d (calls s @ [i2c_cmd_link_create])
                (i2c_master_start (cmd_link d (calls s)) # address_for_read (cmd_link d (calls s)) address @
                 data_reads (cmd_link d (calls s)) pData size')
      then Inl U_ERROR_COMMON_SUCCESS
      else Inl U_ERROR_COMMON_PLATFORM,
      s\<lparr>calls := calls s @ receive_calls d handle address pData size' (calls s)\<rparr>)"
proof (cases "esp_ret d (calls s @ [i2c_cmd_link_create]) (i2c_master_start (cmd_link d (calls s))) = ESP_OK")
  case False
  then show ?thesis
    by (simp add: receive_def io_defs receive_script_def receive_calls_def)
next
  case started: True
  show ?thesis
  proof (cases "127 < address")
    case True
    then show ?thesis
      using started
      by (cases "1 < size'"; cases "0 < size'")
         (simp_all add: receive_def io_defs receive_script_def address_for_read_def data_reads_def receive_calls_def)
  next
    case False
    then show ?thesis
      using started
      by (cases "1 < size'"; cases "0 < size'")
         (simp_all add: receive_def io_defs receive_script_def address_for_read_def data_reads_def receive_calls_def)
  qed
qed



lemma attempt_accepted: "accepted d t xs \<Longrightarrow> attempt d t xs = xs"
  by (induction xs arbitrary: t) simp_all

text \<open>Where the code does release the command link and report a failure as
  \<^verbatim>\<open>U_ERROR_COMMON_PLATFORM\<close>: after an accepted start the last call of either function
  deletes the link, and \<^verbatim>\<open>send\<close> returns nothing but success or
  \<^verbatim>\<open>U_ERROR_COMMON_PLATFORM\<close>.\<close>

lemma send_deletes_link_after_start:
  assumes "esp_ret d (calls s @ [i2c_cmd_link_create]) (i2c_master_start (cmd_link d (calls s))) = ESP_OK"
  shows "last (calls (snd (send d handle address pData size' noStop s))) =
           i2c_cmd_link_delete (cmd_link d (calls s))"
  using assms by (simp add: send_eq send_calls_def del: attempt.simps)

lemma receive_deletes_link_after_start:
  assumes "esp_ret d (calls s @ [i2c_cmd_link_create]) (i2c_master_start (cmd_link d (calls s))) = ESP_OK"
  shows "last (calls (snd (receive d handle address pData size' s))) =
           i2c_cmd_link_delete (cmd_link d (calls s))"
  using assms by (simp add: receive_eq receive_calls_def del: attempt.simps)

lemma send_failure_is_platform:
  "fst (send d handle address pData size' noStop s) \<noteq> U_ERROR_COMMON_SUCCESS \<Longrightarrow>
   fst (send d handle address pData size' noStop s) = U_ERROR_COMMON_PLATFORM"
  by (simp add: send_eq split: if_splits del: accepted.simps)







text \<open>
  C5. The claim: \<^verbatim>\<open>send\<close> and \<^verbatim>\<open>receive\<close> delete the command link on every
  path, and every failure of a primitive gives \<^verbatim>\<open>U_ERROR_COMMON_PLATFORM\<close>. When
  \<^verbatim>\<open>i2c_master_start\<close> fails, \<^verbatim>\<open>send\<close> returns with the link created and not
  deleted (\<^verbatim>\<open>receive\<close> has the same shape). When \<^verbatim>\<open>i2c_master_cmd_begin\<close> fails,
  \<^verbatim>\<open>receive\<close> returns \<^verbatim>\<open>U_ERROR_COMMON_SUCCESS\<close>, that is 0 bytes, where
  \<^verbatim>\<open>send\<close> resets its code to \<^verbatim>\<open>U_ERROR_COMMON_PLATFORM\<close> before the last
  condition.
\<close>

theorem transfer_leaks_link_and_reports_success:
  "send start_fails 0 0x42 0x3FFD0000 2 False opened_0 =
     (U_ERROR_COMMON_PLATFORM,
      opened_0\<lparr>calls := calls opened_0 @ [i2c_cmd_link_create, i2c_master_start 0x3FFB0000]\<rparr>) \<and>
   receive execute_fails 0 0x42 0x3FFD0000 2 opened_0 =
     (Inl U_ERROR_COMMON_SUCCESS,
      opened_0\<lparr>calls := calls opened_0 @
        [i2c_cmd_link_create, i2c_master_start 0x3FFB0000,
         i2c_master_write_byte 0x3FFB0000 0x85 True,
         i2c_master_read 0x3FFB0000 0x3FFD0000 1 I2C_MASTER_ACK,
         i2c_master_read_byte 0x3FFB0000 0x3FFD0001 I2C_MASTER_LAST_NACK,
         i2c_master_stop 0x3FFB0000, i2c_master_cmd_begin 0 0x3FFB0000 0,
         i2c_cmd_link_delete 0x3FFB0000]\<rparr>)"
  by (simp add: send_eq send_calls_def send_script_def address_for_write_def start_fails_def
        receive_eq receive_calls_def receive_script_def address_for_read_def data_reads_def
        execute_fails_def U_PORT_7BIT_ADDRESS_READ_def I2C_MASTER_READ_def)

text \<open>
  C4. The claim: with both buffers given, \<^verbatim>\<open>uPortI2cControllerSendReceive\<close> sends
  without a trailing stop. The code passes \<^verbatim>\<open>noStop = false\<close>: with a driver that
  accepts everything, the send half queues \<^verbatim>\<open>i2c_master_stop\<close> before it executes, and
  the receive half is a second command link.
\<close>

theorem sendReceive_send_half_stops:
  "drop (length (calls opened_0))
     (calls (snd (uPortI2cControllerSendReceive all_ok 0 0x42 0x3FFD0000 2 0x3FFD0100 3 opened_0))) =
     [i2c_cmd_link_create, i2c_master_start 0x3FFB0000,
      i2c_master_write_byte 0x3FFB0000 0x84 True,
      i2c_master_write 0x3FFB0000 0x3FFD0000 2 True,
      i2c_master_stop 0x3FFB0000, i2c_master_cmd_begin 0 0x3FFB0000 0,
      i2c_cmd_link_delete 0x3FFB0000,
      i2c_cmd_link_create, i2c_master_start 0x3FFB0000,
      i2c_master_write_byte 0x3FFB0000 0x85 True,
      i2c_master_read 0x3FFB0000 0x3FFD0100 2 I2C_MASTER_ACK,
      i2c_master_read_byte 0x3FFB0000 0x3FFD0102 I2C_MASTER_LAST_NACK,
      i2c_master_stop 0x3FFB0000, i2c_master_cmd_begin 0 0x3FFB0000 0,
      i2c_cmd_link_delete 0x3FFB0000]"
proof -
  have o: "gMutex opened_0 \<noteq> NULL" "0 <s clockHertz (gI2cData opened_0 0)"
    by (simp_all add: opened_0_eq NULL_def word_sless_alt)
  show ?thesis
    using o
    by (simp add: uPortI2cControllerSendReceive_def in_range_iff NULL_def
        send_eq send_calls_def send_script_def address_for_write_def all_ok_def
        receive_eq receive_calls_def receive_script_def address_for_read_def data_reads_def
        U_PORT_7BIT_ADDRESS_READ_def I2C_MASTER_READ_def
        U_PORT_7BIT_ADDRESS_WRITE_def I2C_MASTER_WRITE_def)
qed

text \<open>
  C4, as the code has it. With both buffers given, on an open handle, the send half is
  \<^verbatim>\<open>send\<close> with \<^verbatim>\<open>noStop = false\<close> and the receive half runs only when that
  returned success; and a send half that returned success has queued the start, the address,
  the data and a stop, executed them and deleted its command link.
\<close>

theorem sendReceive_send_half:
  assumes "gMutex s \<noteq> NULL" and "in_range handle" and "0 <s clockHertz (gI2cData s handle)"
    and "pSend \<noteq> NULL" and "pReceive \<noteq> NULL"
    and "cmd = cmd_link d (calls s)"
    and "sent = send d handle address pSend bytesToSend False s"
  shows "uPortI2cControllerSendReceive d handle address pSend bytesToSend pReceive bytesToReceive s =
           (if fst sent = U_ERROR_COMMON_SUCCESS
            then receive d handle address pReceive bytesToReceive (snd sent)
            else (Inl (fst sent), snd sent)) \<and>
         (fst sent = U_ERROR_COMMON_SUCCESS \<longrightarrow>
            calls (snd sent) = calls s @
              i2c_cmd_link_create # i2c_master_start cmd # address_for_write cmd address @
              [i2c_master_write cmd pSend bytesToSend True, i2c_master_stop cmd,
               i2c_master_cmd_begin handle cmd 0, i2c_cmd_link_delete cmd])"
proof -
  have a: "uPortI2cControllerSendReceive d handle address pSend bytesToSend pReceive bytesToReceive s =
           (if fst sent = U_ERROR_COMMON_SUCCESS
            then receive d handle address pReceive bytesToReceive (snd sent)
            else (Inl (fst sent), snd sent))"
    using assms(1-5) unfolding assms(7)
    by (simp add: uPortI2cControllerSendReceive_def split: prod.splits)
  have b: "calls (snd sent) = calls s @
              i2c_cmd_link_create # i2c_master_start cmd # address_for_write cmd address @
              [i2c_master_write cmd pSend bytesToSend True, i2c_master_stop cmd,
               i2c_master_cmd_begin handle cmd 0, i2c_cmd_link_delete cmd]"
    if ok: "fst sent = U_ERROR_COMMON_SUCCESS"
  proof -
    let ?script = "send_script handle cmd address pSend bytesToSend False"
    have acc: "accepted d (calls s @ [i2c_cmd_link_create]) ?script"
      using ok unfolding assms(7) assms(6) by (simp add: send_eq split: if_splits del: accepted.simps)
    then have st: "esp_ret d (calls s @ [i2c_cmd_link_create]) (i2c_master_start cmd) = ESP_OK"
      by (simp add: send_script_def)
    have "calls (snd sent) = calls s @ send_calls d handle address pSend bytesToSend False (calls s)"
      unfolding assms(7) by (simp add: send_eq)
    also have "\<dots> = calls s @ i2c_cmd_link_create # ?script @ [i2c_cmd_link_delete cmd]"
      using st attempt_accepted [OF acc]
      by (simp only: send_calls_def flip: assms(6)) (simp only: if_True simp_thms)
    finally show ?thesis using assms(4) by (simp add: send_script_def)
  qed
  from a b show ?thesis by blast
qed

theorem sendReceive_send_half_witness:
  "gMutex opened_0 \<noteq> NULL \<and> in_range 0 \<and> 0 <s clockHertz (gI2cData opened_0 0) \<and>
   (0x3FFD0000 :: ptr) \<noteq> NULL \<and> (0x3FFD0100 :: ptr) \<noteq> NULL \<and>
   fst (send all_ok 0 0x42 0x3FFD0000 2 False opened_0) = U_ERROR_COMMON_SUCCESS \<and>
   calls (snd (send all_ok 0 0x42 0x3FFD0000 2 False opened_0)) = calls opened_0 @
     [i2c_cmd_link_create, i2c_master_start 0x3FFB0000,
      i2c_master_write_byte 0x3FFB0000 0x84 True,
      i2c_master_write 0x3FFB0000 0x3FFD0000 2 True,
      i2c_master_stop 0x3FFB0000, i2c_master_cmd_begin 0 0x3FFB0000 0,
      i2c_cmd_link_delete 0x3FFB0000]"
proof -
  have h1: "gMutex opened_0 \<noteq> NULL" by (simp add: opened_0_eq NULL_def)
  have h2: "in_range 0" by (simp add: in_range_iff)
  have h3: "0 <s clockHertz (gI2cData opened_0 0)" by (simp add: opened_0_eq word_sless_alt)
  have h4: "(0x3FFD0000 :: ptr) \<noteq> NULL" by (simp add: NULL_def)
  have h5: "(0x3FFD0100 :: ptr) \<noteq> NULL" by (simp add: NULL_def)
  have ok: "fst (send all_ok 0 0x42 0x3FFD0000 2 False opened_0) = U_ERROR_COMMON_SUCCESS"
    by (simp add: send_eq send_script_def address_for_write_def all_ok_def NULL_def)
  have c: "cmd_link all_ok (calls opened_0) = 0x3FFB0000" by (simp add: all_ok_def)
  from sendReceive_send_half [where d = all_ok and address = "0x42" and bytesToSend = 2
      and bytesToReceive = 3, OF h1 h2 h3 h4 h5 refl refl] ok
  have "calls (snd (send all_ok 0 0x42 0x3FFD0000 2 False opened_0)) = calls opened_0 @
      i2c_cmd_link_create # i2c_master_start 0x3FFB0000 # address_for_write 0x3FFB0000 0x42 @
      [i2c_master_write 0x3FFB0000 0x3FFD0000 2 True, i2c_master_stop 0x3FFB0000,
       i2c_master_cmd_begin 0 0x3FFB0000 0, i2c_cmd_link_delete 0x3FFB0000]"
    unfolding c by blast
  then show ?thesis
    using h1 h2 h3 h4 h5 ok
    by (simp add: address_for_write_def U_PORT_7BIT_ADDRESS_WRITE_def I2C_MASTER_WRITE_def)
qed

section \<open>The resource table\<close>

text \<open>
  C8. With the mutex created, \<^verbatim>\<open>openI2c\<close> returns
  \<^verbatim>\<open>U_ERROR_COMMON_INVALID_PARAMETER\<close>, and changes nothing, when the index is out of
  range, or the entry is not closed (its \<open>clockHertz\<close> is not negative), whatever
  \<open>adopt\<close> is, or \<open>controller\<close> is false, or \<open>adopt\<close> is false and a pin is -1.
  With \<open>adopt\<close> true, a closed entry in range and \<open>controller\<close> true, it returns the
  index whatever the pins are.
\<close>

theorem openI2c_invalid_parameter:
  assumes "gMutex s \<noteq> NULL"
  shows "(\<not> in_range i2c \<or> \<not> clockHertz (gI2cData s i2c) <s 0 \<or> \<not> controller \<or>
          (\<not> adopt \<and> (pinSda' = - 1 \<or> pinSdc' = - 1)) \<longrightarrow>
            openI2c d b i2c pinSda' pinSdc' controller adopt s =
              (Inl U_ERROR_COMMON_INVALID_PARAMETER, s)) \<and>
         (in_range i2c \<and> clockHertz (gI2cData s i2c) <s 0 \<and> controller \<longrightarrow>
            fst (openI2c d b i2c pinSda' pinSdc' controller True s) = Inr i2c)"
  using assms by (auto simp: openI2c_def io_defs word_sle_eq)

theorem openI2c_invalid_parameter_witness:
  "gMutex opened_0 \<noteq> NULL \<and> \<not> clockHertz (gI2cData opened_0 0) <s 0 \<and>
   openI2c all_ok x3_build 0 4 5 True True opened_0 = (Inl U_ERROR_COMMON_INVALID_PARAMETER, opened_0) \<and>
   in_range 1 \<and> clockHertz (gI2cData opened_0 1) <s 0 \<and>
   fst (openI2c all_ok x3_build 1 (- 1) (- 1) True True opened_0) = Inr 1"
proof -
  have h: "gMutex opened_0 \<noteq> NULL" by (simp add: opened_0_eq NULL_def)
  have a: "\<not> clockHertz (gI2cData opened_0 0) <s 0" by (simp add: opened_0_eq word_sless_alt)
  have b: "in_range 1" "clockHertz (gI2cData opened_0 1) <s 0"
    by (simp_all add: in_range_iff opened_0_eq word_sless_alt)
  from openI2c_invalid_parameter [OF h, of 0 True True 4 5 all_ok x3_build]
       openI2c_invalid_parameter [OF h, of 1 True True "- 1" "- 1" all_ok x3_build]
  show ?thesis using h a b by blast
qed

text \<open>
  C9. With the mutex created, \<^verbatim>\<open>uPortI2cCloseRecoverBus\<close> on an open handle that was
  not adopted returns \<^verbatim>\<open>U_ERROR_COMMON_NOT_SUPPORTED\<close> and has closed the instance:
  \<^verbatim>\<open>i2c_driver_delete\<close> was called, \<open>clockHertz\<close> is -1 and the count of open
  instances is one less.
\<close>

theorem closeRecoverBus_closes:
  assumes "gMutex s \<noteq> NULL" and "in_range handle" and "0 <s clockHertz (gI2cData s handle)"
    and "\<not> adopted (gI2cData s handle)"
    and "s' = snd (uPortI2cCloseRecoverBus d handle s)"
  shows "fst (uPortI2cCloseRecoverBus d handle s) = U_ERROR_COMMON_NOT_SUPPORTED \<and>
         calls s' = calls s @ [i2c_driver_delete handle] \<and>
         clockHertz (gI2cData s' handle) = - 1 \<and> clockHertz (gI2cData s' handle) <s 0 \<and>
         uPortI2cResourceAllocCount s' = uPortI2cResourceAllocCount s - 1"
  using assms
  by (simp add: uPortI2cCloseRecoverBus_def closeI2c_def io_defs uPortI2cResourceAllocCount_def
        word_sless_alt)

theorem closeRecoverBus_closes_witness:
  "gMutex opened_0 \<noteq> NULL \<and> in_range 0 \<and> 0 <s clockHertz (gI2cData opened_0 0) \<and>
   \<not> adopted (gI2cData opened_0 0) \<and>
   fst (uPortI2cCloseRecoverBus all_ok 0 opened_0) = U_ERROR_COMMON_NOT_SUPPORTED \<and>
   calls (snd (uPortI2cCloseRecoverBus all_ok 0 opened_0)) = calls opened_0 @ [i2c_driver_delete 0] \<and>
   clockHertz (gI2cData (snd (uPortI2cCloseRecoverBus all_ok 0 opened_0)) 0) = - 1 \<and>
   uPortI2cResourceAllocCount (snd (uPortI2cCloseRecoverBus all_ok 0 opened_0)) = 0"
proof -
  have h: "gMutex opened_0 \<noteq> NULL" "in_range 0" "0 <s clockHertz (gI2cData opened_0 0)"
    "\<not> adopted (gI2cData opened_0 0)"
    by (simp_all add: opened_0_eq NULL_def in_range_iff word_sless_alt)
  have c: "uPortI2cResourceAllocCount opened_0 = 1"
    by (simp add: uPortI2cResourceAllocCount_def opened_0_eq)
  from closeRecoverBus_closes [OF h refl, of all_ok] h c show ?thesis by simp
qed

text \<open>On an adopted handle \<^verbatim>\<open>uPortI2cGetClock\<close>, \<^verbatim>\<open>uPortI2cCloseRecoverBus\<close>
  and \<^verbatim>\<open>uPortI2cSetClock\<close> (with a positive clock) return
  \<^verbatim>\<open>U_ERROR_COMMON_NOT_SUPPORTED\<close> and change nothing, and
  \<^verbatim>\<open>uPortI2cSetTimeout\<close> changes nothing.\<close>

lemma adopted_refused:
  assumes "gMutex s \<noteq> NULL" and "in_range handle" and "0 <s clockHertz (gI2cData s handle)"
    and "adopted (gI2cData s handle)"
  shows "uPortI2cGetClock handle s = Inl U_ERROR_COMMON_NOT_SUPPORTED"
    and "uPortI2cCloseRecoverBus d handle s = (U_ERROR_COMMON_NOT_SUPPORTED, s)"
    and "0 <s clockHertz' \<Longrightarrow>
           uPortI2cSetClock d b handle clockHertz' s = (U_ERROR_COMMON_NOT_SUPPORTED, s)"
    and "snd (uPortI2cSetTimeout d b handle timeoutMs s) = s"
  using assms
  by (simp_all add: uPortI2cGetClock_def uPortI2cCloseRecoverBus_def uPortI2cSetClock_def
        uPortI2cSetTimeout_def)

text \<open>
  C2. The claim: on an open adopted handle \<^verbatim>\<open>uPortI2cSetClock\<close>,
  \<^verbatim>\<open>uPortI2cGetClock\<close>, \<^verbatim>\<open>uPortI2cSetTimeout\<close>, \<^verbatim>\<open>uPortI2cGetTimeout\<close>
  and \<^verbatim>\<open>uPortI2cCloseRecoverBus\<close> all return \<^verbatim>\<open>U_ERROR_COMMON_NOT_SUPPORTED\<close>
  without a driver call. With I2C 1 adopted, \<^verbatim>\<open>uPortI2cSetTimeout\<close> returns
  \<^verbatim>\<open>U_ERROR_COMMON_INVALID_PARAMETER\<close>, and \<^verbatim>\<open>uPortI2cGetTimeout\<close> calls
  \<^verbatim>\<open>i2c_get_timeout\<close> and returns the timeout, 13 ms.
\<close>

theorem adopted_timeout_not_refused:
  "uPortI2cSetTimeout all_ok x3_build 1 10 adopted_1 = (U_ERROR_COMMON_INVALID_PARAMETER, adopted_1) \<and>
   uPortI2cGetTimeout all_ok x3_build 1 adopted_1 =
     (Some (Inr 13), adopted_1\<lparr>calls := [i2c_get_timeout 1]\<rparr>)"
proof -
  have h: "gMutex adopted_1 \<noteq> NULL" "in_range 1" "0 <s clockHertz (gI2cData adopted_1 1)"
    "adopted (gI2cData adopted_1 1)" "calls adopted_1 = []"
    by (simp_all add: adopted_1_eq NULL_def in_range_iff word_sless_alt)
  have t: "timeout_reg all_ok [] = 19" "esp_ret all_ok [] (i2c_get_timeout 1) = ESP_OK"
    by (simp_all add: all_ok_def)
  show ?thesis
    using h t
    by (simp add: uPortI2cSetTimeout_def uPortI2cGetTimeout_def get_timeout_def esp_def
          timeoutEsp32ToMs_x3_values word_sless_alt)
qed

text \<open>\<^verbatim>\<open>uPortI2cSetClock\<close> once the timeout has been read and the driver deleted: the
  result and the state after it.\<close>

lemma setClock_after_delete:
  assumes "gMutex s \<noteq> NULL" and "in_range handle" and "0 <s clockHertz (gI2cData s handle)"
    and "\<not> adopted (gI2cData s handle)" and "0 <s clockHertz'"
    and "esp_ret d (calls s) (i2c_get_timeout handle) = ESP_OK"
    and "esp_ret d (calls s @ [i2c_get_timeout handle]) (i2c_driver_delete handle) = ESP_OK"
    and "t = calls s @ [i2c_get_timeout handle, i2c_driver_delete handle]"
    and "cs = reconfigure_calls b s handle clockHertz' (timeout_reg d (calls s))"
  shows "uPortI2cSetClock d b handle clockHertz' s =
           (if accepted d t cs
            then (U_ERROR_COMMON_SUCCESS,
                  s\<lparr>calls := t @ cs,
                    gI2cData := (gI2cData s)(handle := (gI2cData s handle)\<lparr>clockHertz := clockHertz'\<rparr>)\<rparr>)
            else (U_ERROR_COMMON_PLATFORM,
                  s\<lparr>calls := t @ attempt d t cs,
                    gI2cData := (gI2cData s)(handle := (gI2cData s handle)\<lparr>clockHertz := - 1\<rparr>)\<rparr>))"
  using assms(1-7) unfolding assms(8,9)
  by (simp add: uPortI2cSetClock_def get_timeout_def io_defs reconfigure_calls_def)

text \<open>
  C6. \<^verbatim>\<open>uPortI2cSetClock\<close> with a positive clock on an open handle that was not
  adopted: when \<^verbatim>\<open>i2c_get_timeout\<close> and \<^verbatim>\<open>i2c_driver_delete\<close> have succeeded and
  one of \<^verbatim>\<open>i2c_param_config\<close>, \<^verbatim>\<open>i2c_set_timeout\<close> and
  \<^verbatim>\<open>i2c_driver_install\<close> then fails, the result is \<^verbatim>\<open>U_ERROR_COMMON_PLATFORM\<close>
  and the entry is closed, its \<open>clockHertz\<close> being -1.
\<close>

theorem setClock_fails_closed:
  assumes "gMutex s \<noteq> NULL" and "in_range handle" and "0 <s clockHertz (gI2cData s handle)"
    and "\<not> adopted (gI2cData s handle)" and "0 <s clockHertz'"
    and "esp_ret d (calls s) (i2c_get_timeout handle) = ESP_OK"
    and "esp_ret d (calls s @ [i2c_get_timeout handle]) (i2c_driver_delete handle) = ESP_OK"
    and "\<not> accepted d (calls s @ [i2c_get_timeout handle, i2c_driver_delete handle])
             (reconfigure_calls b s handle clockHertz' (timeout_reg d (calls s)))"
    and "s' = snd (uPortI2cSetClock d b handle clockHertz' s)"
  shows "fst (uPortI2cSetClock d b handle clockHertz' s) = U_ERROR_COMMON_PLATFORM \<and>
         clockHertz (gI2cData s' handle) = - 1 \<and> clockHertz (gI2cData s' handle) <s 0"
  using assms(8) unfolding assms(9)
  by (simp add: setClock_after_delete [OF assms(1-7) refl refl] word_sless_alt del: accepted.simps)

theorem setClock_fails_closed_witness:
  "gMutex opened_0 \<noteq> NULL \<and> in_range 0 \<and> 0 <s clockHertz (gI2cData opened_0 0) \<and>
   \<not> adopted (gI2cData opened_0 0) \<and> (0 :: int32_t) <s 400000 \<and>
   esp_ret install_fails (calls opened_0) (i2c_get_timeout 0) = ESP_OK \<and>
   esp_ret install_fails (calls opened_0 @ [i2c_get_timeout 0]) (i2c_driver_delete 0) = ESP_OK \<and>
   \<not> accepted install_fails (calls opened_0 @ [i2c_get_timeout 0, i2c_driver_delete 0])
       (reconfigure_calls x3_build opened_0 0 400000 (timeout_reg install_fails (calls opened_0))) \<and>
   fst (uPortI2cSetClock install_fails x3_build 0 400000 opened_0) = U_ERROR_COMMON_PLATFORM \<and>
   clockHertz (gI2cData (snd (uPortI2cSetClock install_fails x3_build 0 400000 opened_0)) 0) = - 1"
  using setClock_fails_closed [OF opened_0_facts install_fails_on_opened_0 refl]
    opened_0_facts install_fails_on_opened_0
  by blast

text \<open>
  C10. In the same case \<^verbatim>\<open>uPortI2cSetClock\<close> marks the entry closed and leaves
  \<open>gResourceAllocCount\<close> as it was: if the count was the number of entries in use
  before the call, it is greater than that number after it.
\<close>

theorem setClock_failure_keeps_count:
  assumes "gMutex s \<noteq> NULL" and "in_range handle" and "0 <s clockHertz (gI2cData s handle)"
    and "\<not> adopted (gI2cData s handle)" and "0 <s clockHertz'"
    and "esp_ret d (calls s) (i2c_get_timeout handle) = ESP_OK"
    and "esp_ret d (calls s @ [i2c_get_timeout handle]) (i2c_driver_delete handle) = ESP_OK"
    and "\<not> accepted d (calls s @ [i2c_get_timeout handle, i2c_driver_delete handle])
             (reconfigure_calls b s handle clockHertz' (timeout_reg d (calls s)))"
    and "s' = snd (uPortI2cSetClock d b handle clockHertz' s)"
    and "sint (uPortI2cResourceAllocCount s) = int (open_slots s)"
  shows "clockHertz (gI2cData s' handle) = - 1 \<and>
         uPortI2cResourceAllocCount s' = uPortI2cResourceAllocCount s \<and>
         int (open_slots s') < sint (uPortI2cResourceAllocCount s') \<and>
         sint (uPortI2cResourceAllocCount s') \<noteq> int (open_slots s')"
proof -
  have s': "s' = s\<lparr>calls := (calls s @ [i2c_get_timeout handle, i2c_driver_delete handle]) @
                    attempt d (calls s @ [i2c_get_timeout handle, i2c_driver_delete handle])
                      (reconfigure_calls b s handle clockHertz' (timeout_reg d (calls s))),
                  gI2cData := (gI2cData s)(handle := (gI2cData s handle)\<lparr>clockHertz := - 1\<rparr>)\<rparr>"
    using assms(8) unfolding assms(9)
    by (simp add: setClock_after_delete [OF assms(1-7) refl refl] del: accepted.simps attempt.simps)
  have neg: "\<not> 0 <s (- 1 :: int32_t)" by (simp add: word_sless_alt)
  have "open_slots s = Suc (open_slots s')"
    using assms(2,3) neg unfolding s' by (auto simp: open_slots_def indices_eq in_range_iff)
  then show ?thesis
    using assms(10) neg by (simp add: s' uPortI2cResourceAllocCount_def)
qed

theorem setClock_failure_keeps_count_witness:
  "gMutex opened_0 \<noteq> NULL \<and> in_range 0 \<and> 0 <s clockHertz (gI2cData opened_0 0) \<and>
   \<not> adopted (gI2cData opened_0 0) \<and> (0 :: int32_t) <s 400000 \<and>
   esp_ret install_fails (calls opened_0) (i2c_get_timeout 0) = ESP_OK \<and>
   esp_ret install_fails (calls opened_0 @ [i2c_get_timeout 0]) (i2c_driver_delete 0) = ESP_OK \<and>
   \<not> accepted install_fails (calls opened_0 @ [i2c_get_timeout 0, i2c_driver_delete 0])
       (reconfigure_calls x3_build opened_0 0 400000 (timeout_reg install_fails (calls opened_0))) \<and>
   sint (uPortI2cResourceAllocCount opened_0) = int (open_slots opened_0) \<and>
   uPortI2cResourceAllocCount (snd (uPortI2cSetClock install_fails x3_build 0 400000 opened_0)) = 1 \<and>
   open_slots (snd (uPortI2cSetClock install_fails x3_build 0 400000 opened_0)) = 0"
proof -
  have inv: "sint (uPortI2cResourceAllocCount opened_0) = int (open_slots opened_0)"
    by (simp add: uPortI2cResourceAllocCount_def open_slots_def indices_eq opened_0_eq word_sless_alt)
  have c: "uPortI2cResourceAllocCount opened_0 = 1"
    by (simp add: uPortI2cResourceAllocCount_def opened_0_eq)
  note r = setClock_failure_keeps_count [OF opened_0_facts install_fails_on_opened_0 refl inv]
  have a: "uPortI2cResourceAllocCount (snd (uPortI2cSetClock install_fails x3_build 0 400000 opened_0)) = 1"
    using r c by simp
  have "int (open_slots (snd (uPortI2cSetClock install_fails x3_build 0 400000 opened_0))) <
        sint (uPortI2cResourceAllocCount (snd (uPortI2cSetClock install_fails x3_build 0 400000 opened_0)))"
    using r by blast
  then have b: "open_slots (snd (uPortI2cSetClock install_fails x3_build 0 400000 opened_0)) = 0"
    unfolding a by simp
  show ?thesis
    using opened_0_facts install_fails_on_opened_0 inv a b by simp
qed

end
